theory Spec2Isabelle
  imports Main
begin

section \<open>Data model of the engine\<close>

text \<open>
  The Go package \<open>engine\<close> keeps a table of tasks (\<open>e.ts\<close>), a wait list and a handle to
  the anacrolix protocol client. The model below is sequential: every exported method is
  a function from the engine state to an outcome and the new state. Mutexes are not
  modelled (a call is taken to run alone, its locks granted), and \<open>log\<close> output is left out.
  What a method does to the outside world is written into the state:
  \<^item> \<open>calls\<close> is the trace of calls made on protocol-engine handles,
  \<^item> \<open>spawned\<close> is the list of goroutines started with \<open>go\<close>,
  \<^item> \<open>closedChans\<close> is the set of signal channels that have been closed,
  \<^item> \<open>magnetCache\<close> and \<open>torrentCache\<close> are the identities that have a resume record on
    disk, of the minimal and of the complete kind.
\<close>

type_synonym infohash = string
type_synonym time = int
type_synonym chanref = nat
type_synonym fileref = nat

text \<open>
  The package's three error variables, and \<open>fmt.Errorf\<close> values with their message.
  \<open>LibError\<close> stands for an error handed back by the protocol library.
\<close>

datatype error = ErrTaskExists | ErrWaitListEmpty | ErrMaxConnTasks
  | Errorf string | LibError string

text \<open>
  A Go call either returns or panics. \<open>Return None\<close> is a \<open>nil\<close> error.
\<close>

datatype 'a outcome = Return 'a | Panic

datatype taskType = taskTorrent | taskMagnet

datatype priority = PiecePriorityNone | PiecePriorityNormal

datatype extcall =
    AllowDataUpload infohash
  | AllowDataDownload infohash
  | DisallowDataUpload infohash
  | DisallowDataDownload infohash
  | SetPriority fileref priority
  | AddTrackers infohash "string list"
  | Drop infohash

datatype async =
    GoStartTorrent infohash
  | GoStopTorrent infohash
  | GoDeleteTorrentRemoveCache infohash
  | GoTorrentEventProcessor infohash
  | GoNextWaitTask

text \<open>
  The structs \<open>File\<close>, \<open>Torrent\<close> and \<open>Config\<close> are declared outside the two source
  files; the records hold the fields the engine's methods read and write. \<open>Files\<close> is a
  slice of pointers (\<open>StartTorrent\<close> tests \<open>f != nil\<close>), hence a list of options. The
  field \<open>t.t\<close>, the protocol handle, is \<open>handle\<close> here: \<open>None\<close> is the nil pointer of a
  task that has no handle yet. Of a handle the methods read whether the metadata is
  known (\<open>Info() != nil\<close>) and the list of its files. The seed ratio's numeric type is a
  parameter \<open>'r\<close>: the code only compares ratios with \<open>>\<close> and \<open>>=\<close> and with zero.
\<close>

record File =
  Path :: string
  fStarted :: bool
  fhandle :: fileref

record THandle =
  hasInfo :: bool
  hfiles :: "fileref list"

record 'r Torrent =
  InfoHash :: infohash
  Name :: string
  IsQueueing :: bool
  Started :: bool
  ManualStarted :: bool
  Done :: bool
  IsAllFilesDone :: bool
  StartedAt :: time
  StoppedAt :: time
  SeedRatio :: 'r
  Files :: "File option list"
  handle :: "THandle option"
  dropWait :: chanref

record 'r Config =
  MaxConcurrentTask :: int
  cfgSeedRatio :: 'r
  RemoveTaskAfterStopped :: int
  AutoStart :: bool
  AlwaysAddTrackers :: bool

text \<open>
  A buffered channel of \<open>struct{}\<close> values: its capacity and the number of values
  waiting in the buffer.
\<close>

record chan =
  capacity :: nat
  queued :: nat

text \<open>
  \<open>client\<close> is \<open>None\<close> while \<open>e.client\<close> is nil; otherwise it lists the identities of the
  torrents the protocol client holds (\<open>e.client.Torrents()\<close>).
\<close>

record 'r Engine =
  config :: "'r Config"
  client :: "infohash list option"
  ts :: "infohash \<rightharpoonup> 'r Torrent"
  TsChanged :: chan
  bttracker :: "string list"
  waitList :: "(infohash \<times> taskType) list"
  closedChans :: "chanref set"
  nextChan :: chanref
  magnetCache :: "infohash set"
  torrentCache :: "infohash set"
  calls :: "extcall list"
  spawned :: "async list"

section \<open>Channels\<close>

definition make_chan :: "nat \<Rightarrow> chan" where
  "make_chan n = \<lparr>capacity = n, queued = 0\<rparr>"

text \<open>
  The send statement \<open>c <- struct{}{}\<close>: with room in the buffer the value is stored and
  the sender goes on; with a full buffer the sender waits, which is \<open>None\<close>.
\<close>

definition chan_send :: "chan \<Rightarrow> chan option" where
  "chan_send c =
     (if queued c < capacity c then Some (c\<lparr>queued := Suc (queued c)\<rparr>) else None)"

section \<open>The engine\<close>

text \<open>\<open>New\<close>: empty table, empty wait list, a notification channel made with capacity 1.\<close>

definition New :: "('r::zero) Engine" where
  "New = \<lparr>config = \<lparr>MaxConcurrentTask = 0, cfgSeedRatio = 0, RemoveTaskAfterStopped = 0,
                     AutoStart = False, AlwaysAddTrackers = False\<rparr>,
          client = None,
          ts = Map.empty,
          TsChanged = make_chan 1,
          bttracker = [],
          waitList = [],
          closedChans = {},
          nextChan = 0,
          magnetCache = {},
          torrentCache = {},
          calls = [],
          spawned = []\<rparr>"

subsection \<open>Helpers that are declared outside the source files\<close>

text \<open>
  Modelled from the spec: \<open>getTorrent\<close> is not in the source files. The engine "owns a
  mapping from task identity to Task record"; the lookup fails with an error when the
  identity has no record.
\<close>

definition getTorrent :: "'r Engine \<Rightarrow> infohash \<Rightarrow> error + 'r Torrent" where
  "getTorrent e ih =
     (case ts e ih of
        None \<Rightarrow> Inl (Errorf (''Missing torrent '' @ ih))
      | Some t \<Rightarrow> Inr t)"

subsection \<open>Start and stop of a task\<close>

definition startFiles :: "File option list \<Rightarrow> File option list" where
  "startFiles fs = map (map_option (\<lambda>f. f\<lparr>fStarted := True\<rparr>)) fs"

definition stopFiles :: "File option list \<Rightarrow> File option list" where
  "stopFiles fs = map (map_option (\<lambda>f. f\<lparr>fStarted := False\<rparr>)) fs"

text \<open>
  \<open>StartTorrent\<close>. The flags are written before the handle is touched, so a task with a
  nil handle panics with its flags already set.
\<close>

definition StartTorrent ::
  "'r Engine \<Rightarrow> time \<Rightarrow> infohash \<Rightarrow> error option outcome \<times> 'r Engine" where
  "StartTorrent e now ih =
     (case getTorrent e ih of
        Inl err \<Rightarrow> (Return (Some err), e)
      | Inr t \<Rightarrow>
          if Started t then (Return (Some (Errorf ''Already started'')), e)
          else
            (let t1 = t\<lparr>Started := True, StartedAt := now, Files := startFiles (Files t)\<rparr>;
                 e1 = e\<lparr>ts := (ts e)(ih \<mapsto> t1)\<rparr>
             in case handle t of
                  None \<Rightarrow> (Panic, e1)
                | Some h \<Rightarrow>
                    if hasInfo h
                    then (Return None,
                          e1\<lparr>calls := calls e1 @ [AllowDataUpload ih, AllowDataDownload ih]
                                @ map (\<lambda>i. SetPriority i PiecePriorityNormal) (hfiles h)\<rparr>)
                    else (Return None, e1)))"

text \<open>\<open>StopTorrent\<close>. Here the handle is touched first and the flags are written last.\<close>

definition StopTorrent ::
  "'r Engine \<Rightarrow> time \<Rightarrow> infohash \<Rightarrow> error option outcome \<times> 'r Engine" where
  "StopTorrent e now ih =
     (case getTorrent e ih of
        Inl err \<Rightarrow> (Return (Some err), e)
      | Inr t \<Rightarrow>
          if \<not> Started t then (Return (Some (Errorf ''Already stopped'')), e)
          else
            (case handle t of
               None \<Rightarrow> (Panic, e)
             | Some h \<Rightarrow>
                 (let e1 = (if hasInfo h
                            then e\<lparr>calls := calls e
                                     @ map (\<lambda>i. SetPriority i PiecePriorityNone) (hfiles h)
                                     @ [DisallowDataUpload ih, DisallowDataDownload ih]\<rparr>
                            else e);
                      t1 = t\<lparr>Started := False, StoppedAt := now, Files := stopFiles (Files t)\<rparr>
                  in (Return None, e1\<lparr>ts := (ts e1)(ih \<mapsto> t1)\<rparr>))))"

text \<open>
  \<open>ManualStartTorrent\<close>. After a successful start the task is looked up again and the
  lookup's error is dropped (\<open>t, _ := e.getTorrent(infohash)\<close>); a nil \<open>t\<close> would panic at
  \<open>t.Lock()\<close>.
\<close>

definition ManualStartTorrent ::
  "'r Engine \<Rightarrow> time \<Rightarrow> infohash \<Rightarrow> error option outcome \<times> 'r Engine" where
  "ManualStartTorrent e now ih =
     (case StartTorrent e now ih of
        (Return None, e1) \<Rightarrow>
          (case getTorrent e1 ih of
             Inl _ \<Rightarrow> (Panic, e1)
           | Inr t \<Rightarrow> (Return None, e1\<lparr>ts := (ts e1)(ih \<mapsto> t\<lparr>ManualStarted := True\<rparr>)\<rparr>))
      | (Return (Some err), e1) \<Rightarrow> (Return (Some err), e1)
      | (Panic, e1) \<Rightarrow> (Panic, e1))"

subsection \<open>The governance tick\<close>

text \<open>
  \<open>taskRoutine\<close> reads the configuration and the task and starts goroutines; the result
  is the list of goroutines it starts, in order. The argument \<open>since\<close> gives, for a time
  stamp \<open>x\<close>, the value of \<open>int(time.Since(x).Seconds())\<close> at the moment of the tick.
\<close>

definition taskRoutine ::
  "('r::{ord,zero}) Engine \<Rightarrow> (time \<Rightarrow> int) \<Rightarrow> 'r Torrent \<Rightarrow> async list" where
  "taskRoutine e since t =
     (if cfgSeedRatio (config e) > 0 \<and>
         SeedRatio t > cfgSeedRatio (config e) \<and>
         Started t \<and>
         \<not> ManualStarted t \<and>
         Done t
      then [GoStopTorrent (InfoHash t)] else [])
     @
     (if RemoveTaskAfterStopped (config e) > 0 \<and> cfgSeedRatio (config e) > 0 \<and>
         SeedRatio t \<ge> cfgSeedRatio (config e) \<and> \<not> Started t \<and> Done t \<and>
         since (StartedAt t) > RemoveTaskAfterStopped (config e)
      then [GoDeleteTorrentRemoveCache (InfoHash t)] else [])"

subsection \<open>More helpers that are declared outside the source files\<close>

text \<open>
  Modelled from the spec: the wait list (\<open>syncList\<close>, \<open>isTaskInList\<close>, \<open>pushWaitTask\<close>,
  \<open>waitList.Remove\<close>) is not in the source files. It is a FIFO queue of entries "task
  identity + task kind", whose "set excludes duplicates of identities already active or
  already queued"; a new entry goes to the tail, and \<open>remove(id)\<close> "removes an arbitrary
  entry, no error if absent". An identity is active when the protocol client holds it:
  the "current active count" of the admission test is \<open>len(e.client.Torrents())\<close>.
  \<open>isTaskInList\<close> tells whether the identity is queued; \<open>pushWaitTask\<close> is the enqueue,
  which leaves the list as it is for an identity that is active or queued already.
\<close>

definition isActive :: "'r Engine \<Rightarrow> infohash \<Rightarrow> bool" where
  "isActive e ih = (case client e of None \<Rightarrow> False | Some tors \<Rightarrow> ih \<in> set tors)"

definition isTaskInList :: "'r Engine \<Rightarrow> infohash \<Rightarrow> bool" where
  "isTaskInList e ih = (ih \<in> set (map fst (waitList e)))"

definition pushWaitTask :: "'r Engine \<Rightarrow> infohash \<Rightarrow> taskType \<Rightarrow> 'r Engine" where
  "pushWaitTask e ih tp =
     (if isTaskInList e ih \<or> isActive e ih then e
      else e\<lparr>waitList := waitList e @ [(ih, tp)]\<rparr>)"


text \<open>
  Modelled from the spec: \<open>upsertTorrent\<close> is not in the source files. "A Task is created
  on admission (active) or on queueing (placeholder, shown but without a protocol
  handle)", and identities are unique in the table: an identity that has a record keeps
  it, a new identity gets a fresh record with no handle, no files, all flags clear except
  the queueing mark passed by the caller, and a drop signal of its own.
\<close>

definition upsertTorrent ::
  "('r::zero) Engine \<Rightarrow> infohash \<Rightarrow> string \<Rightarrow> bool \<Rightarrow> 'r Engine" where
  "upsertTorrent e ih name isQueueing =
     (case ts e ih of
        Some t \<Rightarrow> e
      | None \<Rightarrow>
          e\<lparr>ts := (ts e)(ih \<mapsto>
                 \<lparr>InfoHash = ih, Name = name, IsQueueing = isQueueing, Started = False,
                  ManualStarted = False, Done = False, IsAllFilesDone = False,
                  StartedAt = 0, StoppedAt = 0, SeedRatio = 0, Files = [],
                  handle = None, dropWait = nextChan e\<rparr>),
            nextChan := Suc (nextChan e)\<rparr>)"

text \<open>
  Modelled from the spec: the resume-cache functions \<open>removeMagnetCache\<close>,
  \<open>removeTorrentCache\<close> and \<open>newTorrentCacheFile\<close> are not in the source files. A cache
  record is "identity-keyed, holds either a minimal (magnet-style) or complete (manifest)
  descriptor", one file per identity and kind.
\<close>

definition removeMagnetCache :: "'r Engine \<Rightarrow> infohash \<Rightarrow> 'r Engine" where
  "removeMagnetCache e ih = e\<lparr>magnetCache := magnetCache e - {ih}\<rparr>"

definition removeTorrentCache :: "'r Engine \<Rightarrow> infohash \<Rightarrow> 'r Engine" where
  "removeTorrentCache e ih = e\<lparr>torrentCache := torrentCache e - {ih}\<rparr>"

definition newTorrentCacheFile :: "'r Engine \<Rightarrow> infohash \<Rightarrow> 'r Engine" where
  "newTorrentCacheFile e ih = e\<lparr>torrentCache := insert ih (torrentCache e)\<rparr>"


subsection \<open>Admission\<close>

record TorrentSpec =
  specInfoHash :: infohash
  DisplayName :: string

text \<open>\<open>isReadyAddTask\<close> asks the client for its torrents; a nil client panics.\<close>

definition isReadyAddTask :: "'r Engine \<Rightarrow> bool outcome" where
  "isReadyAddTask e =
     (case client e of
        None \<Rightarrow> Panic
      | Some tors \<Rightarrow>
          (let nowTorrentsLen = int (length tors)
           in if MaxConcurrentTask (config e) > 0 \<and>
                 nowTorrentsLen \<ge> MaxConcurrentTask (config e)
              then Return False
              else Return True))"

text \<open>
  \<open>newTorrentBySpec\<close>. The protocol client's answer to \<open>AddTorrentSpec\<close> is the argument
  \<open>added\<close>: \<open>Inl err\<close> for an error, \<open>Inr n\<close> for a torrent whose metainfo has an announce
  list of length \<open>n\<close>; on success the client holds the identity.
\<close>

definition clientAdd :: "infohash list option \<Rightarrow> infohash \<Rightarrow> infohash list option" where
  "clientAdd c ih = map_option (\<lambda>tors. if ih \<in> set tors then tors else tors @ [ih]) c"

definition newTorrentBySpec ::
  "('r::zero) Engine \<Rightarrow> TorrentSpec \<Rightarrow> taskType \<Rightarrow> error + nat
     \<Rightarrow> error option outcome \<times> 'r Engine" where
  "newTorrentBySpec e spec taskT added =
     (let ih = specInfoHash spec in
      case isReadyAddTask e of
        Panic \<Rightarrow> (Panic, e)
      | Return False \<Rightarrow>
          (let e1 = (if \<not> isTaskInList e ih then pushWaitTask e ih taskT else e);
               e2 = upsertTorrent e1 ih (DisplayName spec) True
           in (Return (Some ErrMaxConnTasks), e2))
      | Return True \<Rightarrow>
          (let e1 = upsertTorrent e ih (DisplayName spec) False
           in case added of
                Inl err \<Rightarrow> (Return (Some err), e1)
              | Inr announceLen \<Rightarrow>
                  (let e2 = e1\<lparr>client := clientAdd (client e1) ih\<rparr>;
                       e3 = (if length (bttracker e2) > 0 \<and>
                                (AlwaysAddTrackers (config e2) \<or> announceLen = 0)
                             then e2\<lparr>calls := calls e2 @ [AddTrackers ih (bttracker e2)]\<rparr>
                             else e2)
                   in (Return None,
                       e3\<lparr>spawned := spawned e3 @ [GoTorrentEventProcessor ih]\<rparr>))))"

text \<open>
  \<open>NewTorrentByFilePath\<close>. The metainfo library is a parameter: \<open>LoadFromFile\<close> returns an
  error or a metainfo, or panics; \<open>HashInfoBytes\<close> gives the identity the cache file is
  named after; \<open>TorrentSpecFromMetaInfo\<close> returns a spec or panics ("may panic if the
  info is malformed").
\<close>

record 'm metainfo_lib =
  LoadFromFile :: "string \<Rightarrow> (error + 'm) outcome"
  HashInfoBytes :: "'m \<Rightarrow> infohash"
  TorrentSpecFromMetaInfo :: "'m \<Rightarrow> TorrentSpec outcome"

definition NewTorrentByFilePath_body ::
  "'m metainfo_lib \<Rightarrow> ('r::zero) Engine \<Rightarrow> string \<Rightarrow> error + nat
     \<Rightarrow> error option outcome \<times> 'r Engine" where
  "NewTorrentByFilePath_body lib e path added =
     (case LoadFromFile lib path of
        Panic \<Rightarrow> (Panic, e)
      | Return (Inl err) \<Rightarrow> (Return (Some err), e)
      | Return (Inr info) \<Rightarrow>
          (let e1 = newTorrentCacheFile e (HashInfoBytes lib info)
           in case TorrentSpecFromMetaInfo lib info of
                Panic \<Rightarrow> (Panic, e1)
              | Return spec \<Rightarrow> newTorrentBySpec e1 spec taskTorrent added))"

text \<open>
  The deferred closure calls \<open>recover()\<close>, which ends a panic of the body. The closure
  builds an error and returns it, but the value a deferred call returns is discarded,
  and the function's result is unnamed: after a recovered panic the function returns
  the zero value of its result type, the nil error.
\<close>

definition NewTorrentByFilePath ::
  "'m metainfo_lib \<Rightarrow> ('r::zero) Engine \<Rightarrow> string \<Rightarrow> error + nat
     \<Rightarrow> error option outcome \<times> 'r Engine" where
  "NewTorrentByFilePath lib e path added =
     (case NewTorrentByFilePath_body lib e path added of
        (Panic, e1) \<Rightarrow> (Return None, e1)
      | (Return r, e1) \<Rightarrow> (Return r, e1))"

subsection \<open>Delete and cache removal\<close>


definition RemoveCache :: "'r Engine \<Rightarrow> infohash \<Rightarrow> 'r Engine" where
  "RemoveCache e ih = removeTorrentCache (removeMagnetCache e ih) ih"

subsection \<open>Start and stop of a single file\<close>

text \<open>
  The search loop of \<open>StartFile\<close> and \<open>StopFile\<close>: the first file whose path matches, with
  its position. The loop reads \<open>file.Path\<close> of every entry up to the match, so a nil
  entry met on the way panics.
\<close>

fun findFile :: "File option list \<Rightarrow> string \<Rightarrow> (nat \<times> File) option outcome" where
  "findFile [] p = Return None"
| "findFile (None # fs) p = Panic"
| "findFile (Some f # fs) p =
     (if Path f = p then Return (Some (0, f))
      else (case findFile fs p of
              Return (Some (i, g)) \<Rightarrow> Return (Some (Suc i, g))
            | Return None \<Rightarrow> Return None
            | Panic \<Rightarrow> Panic))"

text \<open>
  The second loop of \<open>StopFile\<close>: \<open>allStopped\<close> stays true unless a started file is met,
  where the loop breaks; a nil entry met before that panics.
\<close>

fun allStopped :: "File option list \<Rightarrow> bool outcome" where
  "allStopped [] = Return True"
| "allStopped (None # fs) = Panic"
| "allStopped (Some f # fs) = (if fStarted f then Return False else allStopped fs)"

definition StartFile ::
  "'r Engine \<Rightarrow> infohash \<Rightarrow> string \<Rightarrow> error option outcome \<times> 'r Engine" where
  "StartFile e ih filepath =
     (case getTorrent e ih of
        Inl err \<Rightarrow> (Return (Some err), e)
      | Inr t \<Rightarrow>
          (case findFile (Files t) filepath of
             Panic \<Rightarrow> (Panic, e)
           | Return None \<Rightarrow> (Return (Some (Errorf (''Missing file '' @ filepath))), e)
           | Return (Some (i, f)) \<Rightarrow>
               if fStarted f then (Return (Some (Errorf ''already started'')), e)
               else
                 (let t1 = t\<lparr>Started := True,
                             Files := (Files t)[i := Some (f\<lparr>fStarted := True\<rparr>)]\<rparr>
                  in (Return None,
                      e\<lparr>ts := (ts e)(ih \<mapsto> t1),
                        calls := calls e @ [SetPriority (fhandle f) PiecePriorityNormal]\<rparr>))))"

definition StopFile ::
  "'r Engine \<Rightarrow> infohash \<Rightarrow> string \<Rightarrow> error option outcome \<times> 'r Engine" where
  "StopFile e ih filepath =
     (case getTorrent e ih of
        Inl err \<Rightarrow> (Return (Some err), e)
      | Inr t \<Rightarrow>
          (case findFile (Files t) filepath of
             Panic \<Rightarrow> (Panic, e)
           | Return None \<Rightarrow> (Return (Some (Errorf (''Missing file '' @ filepath))), e)
           | Return (Some (i, f)) \<Rightarrow>
               if \<not> fStarted f then (Return (Some (Errorf ''already stopped'')), e)
               else
                 (let t1 = t\<lparr>Files := (Files t)[i := Some (f\<lparr>fStarted := False\<rparr>)]\<rparr>;
                      e1 = e\<lparr>ts := (ts e)(ih \<mapsto> t1),
                             calls := calls e @ [SetPriority (fhandle f) PiecePriorityNone]\<rparr>
                  in case allStopped (Files t1) of
                       Panic \<Rightarrow> (Panic, e1)
                     | Return True \<Rightarrow>
                         (Return None, e1\<lparr>spawned := spawned e1 @ [GoStopTorrent ih]\<rparr>)
                     | Return False \<Rightarrow> (Return None, e1))))"

subsection \<open>The worker's first select\<close>

text \<open>
  \<open>torrentEventProcessor\<close> first waits for one of three signals. The function below is
  that \<open>select\<close> statement and the \<open>AutoStart\<close> test after it, for the signal that fired;
  the tick loop that follows calls \<open>taskRoutine\<close> on every tick. The worker's pointer
  \<open>t\<close> is the table's record of the identity. The method \<open>updateOnGotInfo\<close> of the task
  is declared outside the source files and is the parameter \<open>upd\<close>. The result says how
  the worker goes on: it has returned, it is held at the send on \<open>TsChanged\<close>, or it
  enters the tick loop.
\<close>

datatype signal = CloseSync | DropWait | GotInfo

datatype progress = Exited | HeldAtSend | Ticking

definition torrentEventProcessor_select ::
  "('r Torrent \<Rightarrow> 'r Torrent) \<Rightarrow> 'r Engine \<Rightarrow> infohash \<Rightarrow> signal
     \<Rightarrow> progress \<times> 'r Engine" where
  "torrentEventProcessor_select upd e ih sig =
     (case sig of
        CloseSync \<Rightarrow> (Exited, e\<lparr>calls := calls e @ [Drop ih]\<rparr>)
      | DropWait \<Rightarrow>
          (Exited, e\<lparr>calls := calls e @ [Drop ih], spawned := spawned e @ [GoNextWaitTask]\<rparr>)
      | GotInfo \<Rightarrow>
          (let e1 = removeMagnetCache e ih;
               e2 = newTorrentCacheFile e1 ih;
               e3 = e2\<lparr>ts := (case ts e2 ih of
                                 None \<Rightarrow> ts e2
                               | Some t \<Rightarrow> (ts e2)(ih \<mapsto> upd t))\<rparr>
           in case chan_send (TsChanged e3) of
                None \<Rightarrow> (HeldAtSend, e3)
              | Some c \<Rightarrow>
                  (let e4 = e3\<lparr>TsChanged := c\<rparr>
                   in (Ticking,
                       if AutoStart (config e4)
                       then e4\<lparr>spawned := spawned e4 @ [GoStartTorrent ih]\<rparr>
                       else e4))))"

section \<open>Example states\<close>


definition ex_configured :: "int Engine" where
  "ex_configured =
     New\<lparr>config := \<lparr>MaxConcurrentTask = 1, cfgSeedRatio = 1, RemoveTaskAfterStopped = 10,
                     AutoStart = False, AlwaysAddTrackers = False\<rparr>,
         client := Some []\<rparr>"


text \<open>
  \<open>ex_task s\<close> is a finished task with two files, the first started exactly when the task
  is (\<open>s\<close>), the second not started; it was started at instant 0 and stopped at instant
  100, and its ratio is 2. \<open>ex_engine s\<close> holds that task, with both kinds of resume record
  on disk.
\<close>

definition ex_task :: "bool \<Rightarrow> int Torrent" where
  "ex_task s =
     \<lparr>InfoHash = ''aa'', Name = ''a'', IsQueueing = False, Started = s,
      ManualStarted = False, Done = True, IsAllFilesDone = True,
      StartedAt = 0, StoppedAt = 100, SeedRatio = 2,
      Files = [Some \<lparr>Path = ''x'', fStarted = s, fhandle = 0\<rparr>,
               Some \<lparr>Path = ''y'', fStarted = False, fhandle = 1\<rparr>],
      handle = Some \<lparr>hasInfo = True, hfiles = [0, 1]\<rparr>, dropWait = 0\<rparr>"

definition ex_engine :: "bool \<Rightarrow> int Engine" where
  "ex_engine s =
     ex_configured\<lparr>client := Some [''aa''], ts := [''aa'' \<mapsto> ex_task s], nextChan := 1,
                   magnetCache := {''aa''}, torrentCache := {''aa''}\<rparr>"

text \<open>\<open>ex_both\<close> is \<open>ex_engine True\<close> with the second file of the task started as well.\<close>

definition ex_both :: "int Engine" where
  "ex_both =
     (ex_engine True)\<lparr>ts := [''aa'' \<mapsto>
        (ex_task True)\<lparr>Files := [Some \<lparr>Path = ''x'', fStarted = True, fhandle = 0\<rparr>,
                                 Some \<lparr>Path = ''y'', fStarted = True, fhandle = 1\<rparr>]\<rparr>]\<rparr>"

text \<open>
  A metainfo library whose file loads and whose conversion to a spec panics, as for a
  malformed descriptor.
\<close>

definition ex_malformed_lib :: "unit metainfo_lib" where
  "ex_malformed_lib =
     \<lparr>LoadFromFile = (\<lambda>p. Return (Inr ())),
      HashInfoBytes = (\<lambda>m. ''cc''),
      TorrentSpecFromMetaInfo = (\<lambda>m. Panic)\<rparr>"

section \<open>Helper lemmas\<close>

lemma getTorrent_Some: "ts e ih = Some t \<Longrightarrow> getTorrent e ih = Inr t"
  by (simp add: getTorrent_def)

lemma allStopped_iff:
  "allStopped fs = Return b \<Longrightarrow> b = (\<forall>f. Some f \<in> set fs \<longrightarrow> \<not> fStarted f)"
  by (induction fs arbitrary: b rule: allStopped.induct) (auto split: if_splits)

lemma findFile_Some:
  "findFile fs p = Return (Some (i, f)) \<Longrightarrow> i < length fs \<and> fs ! i = Some f \<and> Path f = p"
  by (induction fs p arbitrary: i f rule: findFile.induct)
     (auto split: if_splits outcome.splits option.splits)

lemma StartFile_success:
  assumes "StartFile e ih p = (Return None, e')"
  shows "\<exists>t i f. ts e ih = Some t \<and> findFile (Files t) p = Return (Some (i, f)) \<and>
           \<not> fStarted f \<and>
           e' = e\<lparr>ts := (ts e)(ih \<mapsto> t\<lparr>Started := True,
                                         Files := (Files t)[i := Some (f\<lparr>fStarted := True\<rparr>)]\<rparr>),
                  calls := calls e @ [SetPriority (fhandle f) PiecePriorityNormal]\<rparr>"
  using assms
  by (auto simp: StartFile_def getTorrent_def Let_def
      split: option.splits outcome.splits if_splits)

lemma findFile_finds:
  "None \<notin> set fs \<Longrightarrow> Some f \<in> set fs \<Longrightarrow> Path f = p \<Longrightarrow>
     \<exists>i g. findFile fs p = Return (Some (i, g))"
proof (induction fs p rule: findFile.induct)
  case (1 p)
  then show ?case by simp
next
  case (2 fs p)
  then show ?case by simp
next
  case (3 h fs p)
  show ?case
  proof (cases "Path h = p")
    case True
    then show ?thesis by simp
  next
    case False
    with 3 have "None \<notin> set fs" "Some f \<in> set fs" by auto
    with 3 False obtain i g where "findFile fs p = Return (Some (i, g))" by blast
    with False show ?thesis by simp
  qed
qed

lemma allStopped_total:
  "None \<notin> set fs \<Longrightarrow> allStopped fs = Return True \<or> allStopped fs = Return False"
  by (induction fs rule: allStopped.induct) auto

lemma update_keeps_files:
  "None \<notin> set fs \<Longrightarrow> None \<notin> set (fs[i := Some x])"
  using set_update_subset_insert [of fs i "Some x"] by auto

lemma others_stopped_iff:
  "i < length fs \<Longrightarrow>
   (\<forall>g. Some g \<in> set (fs[i := Some (f\<lparr>fStarted := False\<rparr>)]) \<longrightarrow> \<not> fStarted g) =
   (\<forall>j g. j < length fs \<and> j \<noteq> i \<and> fs ! j = Some g \<longrightarrow> \<not> fStarted g)"
  by (auto simp: in_set_conv_nth nth_list_update split: if_splits)

lemma StopFile_success:
  assumes "StopFile e ih p = (Return None, e')"
  shows "\<exists>t i f. ts e ih = Some t \<and> findFile (Files t) p = Return (Some (i, f)) \<and>
           fStarted f \<and>
           ts e' ih = Some (t\<lparr>Files := (Files t)[i := Some (f\<lparr>fStarted := False\<rparr>)]\<rparr>) \<and>
           calls e' = calls e @ [SetPriority (fhandle f) PiecePriorityNone] \<and>
           (allStopped ((Files t)[i := Some (f\<lparr>fStarted := False\<rparr>)]) = Return True \<and>
              spawned e' = spawned e @ [GoStopTorrent ih] \<or>
            allStopped ((Files t)[i := Some (f\<lparr>fStarted := False\<rparr>)]) = Return False \<and>
              spawned e' = spawned e)"
  using assms
  by (auto simp: StopFile_def getTorrent_def Let_def
      split: option.splits outcome.splits if_splits bool.splits)

lemma StopFile_returns:
  assumes t: "ts e ih = Some t"
    and nn: "None \<notin> set (Files t)"
    and ex: "Some f \<in> set (Files t)" "Path f = p"
    and st: "\<forall>g. Some g \<in> set (Files t) \<and> Path g = p \<longrightarrow> fStarted g"
  shows "fst (StopFile e ih p) = Return None"
proof -
  from findFile_finds [OF nn ex] obtain i g where
    ff: "findFile (Files t) p = Return (Some (i, g))" by blast
  from findFile_Some [OF ff] have i: "i < length (Files t)" "Files t ! i = Some g" "Path g = p"
    by simp_all
  then have "Some g \<in> set (Files t)" by (metis nth_mem)
  with st i have sg: "fStarted g" by blast
  from allStopped_total [OF update_keeps_files [OF nn]]
  have "allStopped ((Files t)[i := Some (g\<lparr>fStarted := False\<rparr>)]) = Return True \<or>
        allStopped ((Files t)[i := Some (g\<lparr>fStarted := False\<rparr>)]) = Return False" .
  then show ?thesis
    using t ff sg by (auto simp: StopFile_def getTorrent_def Let_def)
qed




section \<open>Admission at the limit\<close>




section \<open>Start and stop guards\<close>

text \<open>
  C2. For a task of the table whose \<open>Started\<close> flag is set, \<open>StartTorrent\<close> returns the
  error "Already started"; for one whose flag is clear, \<open>StopTorrent\<close> returns the error
  "Already stopped". In both cases the engine state after the call is the state before
  it: no flag, time stamp or file of the task is written, and no handle is called.
\<close>

theorem start_stop_guarded:
  "(ts e ih = Some t \<and> Started t \<longrightarrow>
      StartTorrent e now ih = (Return (Some (Errorf ''Already started'')), e)) \<and>
   (ts e ih = Some t \<and> \<not> Started t \<longrightarrow>
      StopTorrent e now ih = (Return (Some (Errorf ''Already stopped'')), e))"
  by (simp add: StartTorrent_def StopTorrent_def getTorrent_Some)

theorem start_stop_guarded_witness:
  "StartTorrent (ex_engine True) 7 ''aa''
     = (Return (Some (Errorf ''Already started'')), ex_engine True) \<and>
   StopTorrent (ex_engine False) 7 ''aa''
     = (Return (Some (Errorf ''Already stopped'')), ex_engine False)"
  using start_stop_guarded [of "ex_engine True" "''aa''" "ex_task True" 7]
    start_stop_guarded [of "ex_engine False" "''aa''" "ex_task False" 7]
  by (simp add: ex_engine_def ex_task_def)

section \<open>Governance\<close>

text \<open>
  C3. The tick starts a \<open>StopTorrent\<close> goroutine for the task if and only if the
  configured ratio is positive, the task's ratio is strictly above it, the task is
  started, not manually started, and done. A manually started task gets no stop
  goroutine from the tick, whatever its other fields are.
\<close>

theorem auto_stop_iff:
  "(GoStopTorrent (InfoHash t) \<in> set (taskRoutine e since t)) =
     (0 < cfgSeedRatio (config e) \<and> cfgSeedRatio (config e) < SeedRatio t \<and>
      Started t \<and> \<not> ManualStarted t \<and> Done t) \<and>
   (ManualStarted t \<longrightarrow> (\<forall>ih. GoStopTorrent ih \<notin> set (taskRoutine e since t)))"
  by (simp add: taskRoutine_def)

text \<open>
  The started example task is stopped by the tick; the same task with \<open>ManualStarted\<close>
  set is not.
\<close>

theorem auto_stop_iff_witness:
  "GoStopTorrent ''aa'' \<in> set (taskRoutine (ex_engine True) ((-) 105) (ex_task True)) \<and>
   GoStopTorrent ''aa'' \<notin> set (taskRoutine (ex_engine True) ((-) 105)
                                    ((ex_task True)\<lparr>ManualStarted := True\<rparr>))"
  using auto_stop_iff [of "ex_task True" "ex_engine True" "(-) 105"]
    auto_stop_iff [of "(ex_task True)\<lparr>ManualStarted := True\<rparr>" "ex_engine True" "(-) 105"]
  by (simp add: ex_engine_def ex_configured_def ex_task_def)

text \<open>
  C4. The claim measures the time since \<open>StoppedAt\<close>; the tick measures it since
  \<open>StartedAt\<close>. The stopped example task was started at instant 0 and stopped at instant
  100, and the stale-removal duration is 10. At instant 105 only 5 have passed since the
  stop, which does not exceed 10, and the tick starts the delete goroutine all the same.
\<close>

theorem auto_delete_counts_from_StartedAt:
  "taskRoutine (ex_engine False) ((-) 105) (ex_task False)
     = [GoDeleteTorrentRemoveCache ''aa''] \<and>
   \<not> (105 - StoppedAt (ex_task False) > RemoveTaskAfterStopped (config (ex_engine False)))"
  by (simp add: taskRoutine_def ex_engine_def ex_configured_def ex_task_def)

section \<open>Delete and the resume cache\<close>



section \<open>Single files\<close>

text \<open>
  C6, as the code has it. A successful \<open>StartFile\<close> sets the task's \<open>Started\<close> flag: after
  it the task is started, whether it was before or not, and the file found at the path,
  which was not started, is.
\<close>

theorem StartFile_sets_task_started:
  assumes "StartFile e ih p = (Return None, e')"
  shows "\<exists>t t' i f. ts e ih = Some t \<and> ts e' ih = Some t' \<and> Started t' \<and>
           i < length (Files t) \<and> Files t ! i = Some f \<and> Path f = p \<and> \<not> fStarted f \<and>
           Files t' = (Files t)[i := Some (f\<lparr>fStarted := True\<rparr>)]"
proof -
  from StartFile_success [OF assms] obtain t i f where
    t: "ts e ih = Some t" and
    ff: "findFile (Files t) p = Return (Some (i, f))" and
    nf: "\<not> fStarted f" and
    e': "e' = e\<lparr>ts := (ts e)(ih \<mapsto> t\<lparr>Started := True,
                                         Files := (Files t)[i := Some (f\<lparr>fStarted := True\<rparr>)]\<rparr>),
                  calls := calls e @ [SetPriority (fhandle f) PiecePriorityNormal]\<rparr>"
    by blast
  define t' where "t' = t\<lparr>Started := True, Files := (Files t)[i := Some (f\<lparr>fStarted := True\<rparr>)]\<rparr>"
  have 1: "ts e' ih = Some t'" by (simp add: e' t'_def)
  have 2: "Started t'" by (simp add: t'_def)
  have 3: "Files t' = (Files t)[i := Some (f\<lparr>fStarted := True\<rparr>)]" by (simp add: t'_def)
  from findFile_Some [OF ff] have 4: "i < length (Files t)" "Files t ! i = Some f" "Path f = p"
    by simp_all
  from t 1 2 3 4 nf show ?thesis by blast
qed

theorem StartFile_sets_task_started_witness:
  "StartFile (ex_engine False) ''aa'' ''y'' =
     (Return None, snd (StartFile (ex_engine False) ''aa'' ''y'')) \<and>
   (\<exists>t'. ts (snd (StartFile (ex_engine False) ''aa'' ''y'')) ''aa'' = Some t' \<and> Started t')"
proof -
  have ok: "StartFile (ex_engine False) ''aa'' ''y'' =
     (Return None, snd (StartFile (ex_engine False) ''aa'' ''y''))"
    by (simp add: StartFile_def getTorrent_def ex_engine_def ex_configured_def New_def
      ex_task_def Let_def)
  from StartFile_sets_task_started [OF ok] ok show ?thesis by blast
qed

text \<open>
  C6 as written fails: the stopped example task has its \<open>Started\<close> flag clear, starting
  its file \<open>''x''\<close> succeeds, and the flag is set afterwards.
\<close>

theorem StartFile_counterexample:
  "\<not> Started (ex_task False) \<and>
   ts (ex_engine False) ''aa'' = Some (ex_task False) \<and>
   fst (StartFile (ex_engine False) ''aa'' ''x'') = Return None \<and>
   map_option Started (ts (snd (StartFile (ex_engine False) ''aa'' ''x'')) ''aa'') = Some True"
  by (simp add: StartFile_def getTorrent_def ex_engine_def ex_configured_def New_def
      ex_task_def Let_def)

text \<open>
  C7. A successful \<open>StopFile\<close> has found a started file at the path and cleared its flag,
  the other files being as before, and has set that file's priority to none. It starts
  one \<open>StopTorrent\<close> goroutine for the task exactly when no other file of the task was
  started, which is when no file of the task is started afterwards; when some other file
  is still started it starts none. The call does succeed on a task without nil entries
  that has a file at the path, every file at the path being started.
\<close>

theorem StopFile_cascade:
  "(StopFile e ih p = (Return None, e') \<longrightarrow>
     (\<exists>t i f. ts e ih = Some t \<and> i < length (Files t) \<and> Files t ! i = Some f \<and>
        Path f = p \<and> fStarted f \<and>
        ts e' ih = Some (t\<lparr>Files := (Files t)[i := Some (f\<lparr>fStarted := False\<rparr>)]\<rparr>) \<and>
        calls e' = calls e @ [SetPriority (fhandle f) PiecePriorityNone] \<and>
        spawned e' = spawned e @
          (if \<forall>j g. j < length (Files t) \<and> j \<noteq> i \<and> Files t ! j = Some g \<longrightarrow> \<not> fStarted g
           then [GoStopTorrent ih] else []) \<and>
        ((\<forall>j g. j < length (Files t) \<and> j \<noteq> i \<and> Files t ! j = Some g \<longrightarrow> \<not> fStarted g) =
         (\<forall>g. Some g \<in> set ((Files t)[i := Some (f\<lparr>fStarted := False\<rparr>)]) \<longrightarrow>
              \<not> fStarted g)))) \<and>
   (ts e ih = Some t0 \<and> None \<notin> set (Files t0) \<and> Some f0 \<in> set (Files t0) \<and> Path f0 = p \<and>
      (\<forall>g. Some g \<in> set (Files t0) \<and> Path g = p \<longrightarrow> fStarted g) \<longrightarrow>
      fst (StopFile e ih p) = Return None)"
proof (intro conjI impI)
  assume ok: "StopFile e ih p = (Return None, e')"
  from StopFile_success [OF ok] obtain t i f where
    t: "ts e ih = Some t" and
    ff: "findFile (Files t) p = Return (Some (i, f))" and
    sf: "fStarted f" and
    t': "ts e' ih = Some (t\<lparr>Files := (Files t)[i := Some (f\<lparr>fStarted := False\<rparr>)]\<rparr>)" and
    cl: "calls e' = calls e @ [SetPriority (fhandle f) PiecePriorityNone]" and
    alt: "allStopped ((Files t)[i := Some (f\<lparr>fStarted := False\<rparr>)]) = Return True \<and>
              spawned e' = spawned e @ [GoStopTorrent ih] \<or>
            allStopped ((Files t)[i := Some (f\<lparr>fStarted := False\<rparr>)]) = Return False \<and>
              spawned e' = spawned e"
    by blast
  from findFile_Some [OF ff] have i: "i < length (Files t)" "Files t ! i = Some f" "Path f = p"
    by simp_all
  let ?post = "\<forall>g. Some g \<in> set ((Files t)[i := Some (f\<lparr>fStarted := False\<rparr>)]) \<longrightarrow> \<not> fStarted g"
  let ?pre = "\<forall>j g. j < length (Files t) \<and> j \<noteq> i \<and> Files t ! j = Some g \<longrightarrow> \<not> fStarted g"
  have eq: "?pre = ?post"
    using others_stopped_iff [OF i(1), of f] by simp
  have sp: "spawned e' = spawned e @ (if ?pre then [GoStopTorrent ih] else [])"
    using alt
  proof
    assume a: "allStopped ((Files t)[i := Some (f\<lparr>fStarted := False\<rparr>)]) = Return True \<and>
              spawned e' = spawned e @ [GoStopTorrent ih]"
    then have "allStopped ((Files t)[i := Some (f\<lparr>fStarted := False\<rparr>)]) = Return True" ..
    from allStopped_iff [OF this] have ?post by simp
    with eq have ?pre by simp
    with a show ?thesis by simp
  next
    assume a: "allStopped ((Files t)[i := Some (f\<lparr>fStarted := False\<rparr>)]) = Return False \<and>
              spawned e' = spawned e"
    then have "allStopped ((Files t)[i := Some (f\<lparr>fStarted := False\<rparr>)]) = Return False" ..
    from allStopped_iff [OF this] have "\<not> ?post" by simp
    with eq have "\<not> ?pre" by simp
    with a show ?thesis by simp
  qed
  from t i sf t' cl sp eq
  show "\<exists>t i f. ts e ih = Some t \<and> i < length (Files t) \<and> Files t ! i = Some f \<and>
        Path f = p \<and> fStarted f \<and>
        ts e' ih = Some (t\<lparr>Files := (Files t)[i := Some (f\<lparr>fStarted := False\<rparr>)]\<rparr>) \<and>
        calls e' = calls e @ [SetPriority (fhandle f) PiecePriorityNone] \<and>
        spawned e' = spawned e @
          (if \<forall>j g. j < length (Files t) \<and> j \<noteq> i \<and> Files t ! j = Some g \<longrightarrow> \<not> fStarted g
           then [GoStopTorrent ih] else []) \<and>
        ((\<forall>j g. j < length (Files t) \<and> j \<noteq> i \<and> Files t ! j = Some g \<longrightarrow> \<not> fStarted g) =
         (\<forall>g. Some g \<in> set ((Files t)[i := Some (f\<lparr>fStarted := False\<rparr>)]) \<longrightarrow>
              \<not> fStarted g))"
    by blast
next
  assume h: "ts e ih = Some t0 \<and> None \<notin> set (Files t0) \<and> Some f0 \<in> set (Files t0) \<and>
      Path f0 = p \<and> (\<forall>g. Some g \<in> set (Files t0) \<and> Path g = p \<longrightarrow> fStarted g)"
  then show "fst (StopFile e ih p) = Return None"
    using StopFile_returns [of e ih t0 f0 p] by blast
qed


text \<open>
  In the started example task only \<open>''x''\<close> is started: stopping it starts the task-level
  stop. In \<open>ex_both\<close> the file \<open>''y''\<close> is started too: stopping \<open>''x''\<close> starts nothing.
\<close>

theorem StopFile_cascade_witness:
  "fst (StopFile (ex_engine True) ''aa'' ''x'') = Return None \<and>
   spawned (snd (StopFile (ex_engine True) ''aa'' ''x'')) = [GoStopTorrent ''aa''] \<and>
   fst (StopFile ex_both ''aa'' ''x'') = Return None \<and>
   spawned (snd (StopFile ex_both ''aa'' ''x'')) = []"
proof -
  let ?x = "\<lparr>Path = ''x'', fStarted = True, fhandle = 0\<rparr>"
  have one: "fst (StopFile e ''aa'' ''x'') = Return None \<and>
             spawned (snd (StopFile e ''aa'' ''x'')) =
               (if fStarted y then [] else [GoStopTorrent ''aa''])"
    if t: "ts e ''aa'' = Some t" and fl: "Files t = [Some ?x, Some y]"
      and py: "Path y \<noteq> ''x''" and sp: "spawned e = []"
    for e :: "int Engine" and t y
  proof -
    note th = StopFile_cascade [of e "''aa''" "''x''" "snd (StopFile e ''aa'' ''x'')" t ?x]
    have r: "fst (StopFile e ''aa'' ''x'') = Return None"
      using th t fl py by auto
    then have ok: "StopFile e ''aa'' ''x'' = (Return None, snd (StopFile e ''aa'' ''x''))"
      by (simp add: prod_eq_iff)
    with th obtain u i f where
      u: "ts e ''aa'' = Some u" and i: "i < length (Files u)" "Files u ! i = Some f"
        "Path f = ''x''" and
      s: "spawned (snd (StopFile e ''aa'' ''x'')) = spawned e @
          (if \<forall>j g. j < length (Files u) \<and> j \<noteq> i \<and> Files u ! j = Some g \<longrightarrow> \<not> fStarted g
           then [GoStopTorrent ''aa''] else [])"
      by blast
    from u t have ut: "u = t" by simp
    have i0: "i = 0"
      using i py by (cases i) (auto simp: ut fl)
    have "(\<forall>j g. j < length (Files u) \<and> j \<noteq> i \<and> Files u ! j = Some g \<longrightarrow> \<not> fStarted g)
            = (\<not> fStarted y)"
    proof
      assume h: "\<forall>j g. j < length (Files u) \<and> j \<noteq> i \<and> Files u ! j = Some g \<longrightarrow> \<not> fStarted g"
      have "Suc 0 < length (Files u) \<and> Suc 0 \<noteq> i \<and> Files u ! Suc 0 = Some y"
        by (simp add: ut fl i0)
      with h show "\<not> fStarted y" by blast
    next
      assume "\<not> fStarted y"
      then show "\<forall>j g. j < length (Files u) \<and> j \<noteq> i \<and> Files u ! j = Some g \<longrightarrow> \<not> fStarted g"
        by (auto simp: ut fl i0 less_Suc_eq)
    qed
    with s sp r show ?thesis by simp
  qed
  have a: "ts (ex_engine True) ''aa'' = Some (ex_task True)"
    "Files (ex_task True) = [Some ?x, Some \<lparr>Path = ''y'', fStarted = False, fhandle = 1\<rparr>]"
    "spawned (ex_engine True) = []"
    by (simp_all add: ex_engine_def ex_configured_def New_def ex_task_def)
  have b: "ts ex_both ''aa'' = Some ((ex_task True)\<lparr>Files :=
             [Some ?x, Some \<lparr>Path = ''y'', fStarted = True, fhandle = 1\<rparr>]\<rparr>)"
    "spawned ex_both = []"
    by (simp_all add: ex_both_def ex_engine_def ex_configured_def New_def ex_task_def)
  from one [OF a(1) a(2) _ a(3)] one [OF b(1) _ _ b(2)] show ?thesis by simp
qed

section \<open>The recovery boundary of \<open>NewTorrentByFilePath\<close>\<close>

text \<open>
  C8. The claim asks for a non-nil error when parsing the descriptor panics. With a
  library whose conversion to a spec panics, the body of \<open>NewTorrentByFilePath\<close> panics,
  the deferred closure recovers, and the function returns the nil error: the caller sees
  success.
\<close>

theorem NewTorrentByFilePath_panic_returns_nil:
  "TorrentSpecFromMetaInfo ex_malformed_lib () = Panic \<and>
   fst (NewTorrentByFilePath_body ex_malformed_lib ex_configured ''bad.torrent'' (Inr 0))
     = Panic \<and>
   fst (NewTorrentByFilePath ex_malformed_lib ex_configured ''bad.torrent'' (Inr 0))
     = Return None"
  by (simp add: NewTorrentByFilePath_def NewTorrentByFilePath_body_def ex_malformed_lib_def
      Let_def)

section \<open>The change notification\<close>

text \<open>
  C9, as the code has it. The notification channel of a new engine has capacity one and
  is empty. A worker that reaches the send with the channel empty fills it and goes on
  to its tick loop. A worker that reaches the send with the channel full is held at the
  send: it does not go on, and the channel keeps its one value, so nothing is discarded.
\<close>

theorem TsChanged_send:
  "capacity (TsChanged (New :: ('r::zero) Engine)) = 1 \<and>
   queued (TsChanged (New :: 'r Engine)) = 0 \<and>
   (capacity (TsChanged e) = 1 \<and> queued (TsChanged e) = 0 \<longrightarrow>
      fst (torrentEventProcessor_select upd (e :: 'r Engine) ih GotInfo) = Ticking \<and>
      queued (TsChanged (snd (torrentEventProcessor_select upd e ih GotInfo))) = 1) \<and>
   (capacity (TsChanged e) = 1 \<and> queued (TsChanged e) = 1 \<longrightarrow>
      fst (torrentEventProcessor_select upd e ih GotInfo) = HeldAtSend \<and>
      TsChanged (snd (torrentEventProcessor_select upd e ih GotInfo)) = TsChanged e)"
  by (simp add: torrentEventProcessor_select_def New_def make_chan_def chan_send_def
      removeMagnetCache_def newTorrentCacheFile_def Let_def)

theorem TsChanged_send_witness:
  "fst (torrentEventProcessor_select id (New :: int Engine) ''aa'' GotInfo) = Ticking \<and>
   fst (torrentEventProcessor_select id
          ((New :: int Engine)\<lparr>TsChanged := \<lparr>capacity = 1, queued = 1\<rparr>\<rparr>)
          ''aa'' GotInfo) = HeldAtSend"
  using TsChanged_send [of "New :: int Engine" id "''aa''"]
    TsChanged_send [of "(New :: int Engine)\<lparr>TsChanged := \<lparr>capacity = 1, queued = 1\<rparr>\<rparr>" id "''aa''"]
  by (simp add: New_def make_chan_def)

text \<open>
  C9 as written fails: on a new engine the worker of \<open>''aa''\<close> sends its notification and
  goes on; with nobody reading, the worker of \<open>''bb''\<close> is then held at its send.
\<close>

theorem TsChanged_send_counterexample:
  "fst (torrentEventProcessor_select id (New :: int Engine) ''aa'' GotInfo) = Ticking \<and>
   fst (torrentEventProcessor_select id
          (snd (torrentEventProcessor_select id (New :: int Engine) ''aa'' GotInfo))
          ''bb'' GotInfo) = HeldAtSend"
  by (simp add: torrentEventProcessor_select_def New_def make_chan_def chan_send_def
      removeMagnetCache_def newTorrentCacheFile_def Let_def)

section \<open>Manual start\<close>

text \<open>
  C10. For a task of the table that is started already, \<open>ManualStartTorrent\<close> returns the
  error "Already started" and leaves the engine state, and with it the task's
  \<open>ManualStarted\<close> flag, as it was; the tick then treats the task as before. Whenever the
  underlying \<open>StartTorrent\<close> does not succeed, \<open>ManualStartTorrent\<close> ends the same way and
  the \<open>ManualStarted\<close> flag of the identity is unchanged; when it succeeds,
  \<open>ManualStartTorrent\<close> succeeds and the flag is set.
\<close>

theorem ManualStart_guarded:
  "(ts e ih = Some t \<and> Started t \<longrightarrow>
      ManualStartTorrent e now ih = (Return (Some (Errorf ''Already started'')), e) \<and>
      ts (snd (ManualStartTorrent e now ih)) ih = Some t \<and>
      taskRoutine (snd (ManualStartTorrent e now ih)) since t = taskRoutine e since t) \<and>
   (fst (StartTorrent e now ih) \<noteq> Return None \<longrightarrow>
      fst (ManualStartTorrent e now ih) = fst (StartTorrent e now ih) \<and>
      map_option ManualStarted (ts (snd (ManualStartTorrent e now ih)) ih)
        = map_option ManualStarted (ts e ih)) \<and>
   (fst (StartTorrent e now ih) = Return None \<longrightarrow>
      fst (ManualStartTorrent e now ih) = Return None \<and>
      map_option ManualStarted (ts (snd (ManualStartTorrent e now ih)) ih) = Some True)"
  by (auto simp: ManualStartTorrent_def StartTorrent_def getTorrent_def Let_def
      split: option.splits outcome.splits if_splits prod.splits sum.splits)

text \<open>
  The started example task stays as it is, and is still stopped by the tick; the stopped
  one is started and marked.
\<close>

theorem ManualStart_guarded_witness:
  "ManualStartTorrent (ex_engine True) 7 ''aa''
     = (Return (Some (Errorf ''Already started'')), ex_engine True) \<and>
   GoStopTorrent ''aa'' \<in> set (taskRoutine (snd (ManualStartTorrent (ex_engine True) 7 ''aa''))
                                  ((-) 105) (ex_task True)) \<and>
   fst (ManualStartTorrent (ex_engine False) 7 ''aa'') = Return None \<and>
   map_option ManualStarted (ts (snd (ManualStartTorrent (ex_engine False) 7 ''aa'')) ''aa'')
     = Some True"
proof -
  have "fst (StartTorrent (ex_engine False) 7 ''aa'') = Return None"
    by (simp add: StartTorrent_def getTorrent_def ex_engine_def ex_configured_def New_def
      ex_task_def Let_def)
  moreover have "ts (ex_engine True) ''aa'' = Some (ex_task True) \<and> Started (ex_task True)"
    by (simp add: ex_engine_def ex_task_def)
  moreover have "GoStopTorrent ''aa'' \<in> set (taskRoutine (ex_engine True) ((-) 105) (ex_task True))"
    by (simp add: taskRoutine_def ex_engine_def ex_configured_def ex_task_def)
  ultimately show ?thesis
    using ManualStart_guarded [of "ex_engine True" "''aa''" "ex_task True" 7 "(-) 105"]
      ManualStart_guarded [of "ex_engine False" "''aa''" "ex_task False" 7 "(-) 105"]
    by simp
qed

end
